theory Spec2Isabelle
  imports Main "HOL-Library.Sublist"
begin

section \<open>The job record and the job store\<close>

text \<open>
  A job is the dictionary built by \<open>AppState.add_job\<close>. Its \<open>status\<close> holds one
  of the seven strings the program ever writes; the key \<open>resolved_url\<close> is absent until
  \<open>run_job\<close> stores it, hence an option. The key \<open>id\<close> is the field \<open>jid\<close> (\<open>id\<close>
  is the identity function of HOL).

  A Python \<open>str\<close> is a HOL \<open>string\<close> with one \<open>char\<close> per code point, for texts whose
  code points are below 256. The arrow of three log texts lies beyond that range and is
  written as the three bytes of its UTF-8 encoding.
\<close>

datatype status = Queued | Running | Downloading | Transcribing | Summarizing | Completed | Error

record job =
  jid :: string
  url :: string
  status :: status
  created_at :: int
  created_label :: string
  meeting_date :: string
  title :: string
  path :: string
  error :: string
  file_path :: string
  resolved_url :: "string option"
  transcript :: string
  summary :: string
  logs :: "string list"

record app =
  audio_url :: string
  jobs :: "job list"
  current_job_id :: string

text \<open>An exception, as \<open>run_job\<close> reads it: \<open>type(e).__name__\<close> and \<open>str(e)\<close>.\<close>

datatype exn = Exn (exn_type: string) (exn_text: string)

definition arrow :: string where
  "arrow = [CHR 0xE2, CHR 0x86, CHR 0x92]"

text \<open>\<open>str(n)\<close> for a length: the decimal digits.\<close>

function str_nat :: "nat \<Rightarrow> string" where
  "str_nat n = (if n < 10 then [''0123456789'' ! n] else str_nat (n div 10) @ [''0123456789'' ! (n mod 10)])"
  by pat_completeness auto
termination
  by (relation "measure (\<lambda>n. n)") auto

declare str_nat.simps [simp del]

text \<open>
  \<open>_get_job\<close> returns a reference to the first dictionary of \<open>self.jobs\<close> whose id is
  the one asked for: the model returns its position, and a write through the reference is
  a list update at that position.
\<close>

fun get_job_from :: "nat \<Rightarrow> job list \<Rightarrow> string \<Rightarrow> nat option" where
  "get_job_from k [] job_id = None"
| "get_job_from k (j # js) job_id = (if jid j = job_id then Some k else get_job_from (Suc k) js job_id)"

definition get_job :: "job list \<Rightarrow> string \<Rightarrow> nat option" where
  "get_job js job_id = get_job_from 0 js job_id"

subsection \<open>Writes to one job, and what \<open>_save\<close> persists\<close>

text \<open>
  While an operation works on a job it holds the dictionary \<open>j\<close> and calls \<open>_save\<close>
  after its writes; \<open>_save\<close> dumps the whole job list to \<open>jobs.json\<close>. A recorder is
  the current value of \<open>j\<close> together with the values of \<open>j\<close> persisted so far, oldest
  first. \<open>_append_log\<close> appends the line and saves.
\<close>

type_synonym recorder = "job \<times> job list"

definition save :: "recorder \<Rightarrow> recorder" where
  "save r = (fst r, snd r @ [fst r])"

definition assign :: "(job \<Rightarrow> job) \<Rightarrow> recorder \<Rightarrow> recorder" where
  "assign f r = (f (fst r), snd r)"

definition append_log :: "string \<Rightarrow> recorder \<Rightarrow> recorder" where
  "append_log line r = save (assign (\<lambda>j. j\<lparr>logs := logs j @ [line]\<rparr>) r)"

definition emit :: "string list \<Rightarrow> recorder \<Rightarrow> recorder" where
  "emit ls r = foldl (\<lambda>r' line. append_log line r') r ls"

subsection \<open>The stages, as the orchestrator sees them\<close>

text \<open>
  A stage is a generator that calls \<open>log\<close> some number of times and then returns a value
  or raises. The orchestrator is written against any such behaviour: \<open>world\<close> gives, for
  the arguments of each call, the lines logged and the outcome (\<open>Inl\<close> the exception).
  The stage functions of this file are modelled further below.
\<close>

record world =
  w_resolve :: "string \<Rightarrow> string \<Rightarrow> string list \<times> (exn + string)"
  w_download :: "string \<Rightarrow> string \<Rightarrow> string list \<times> (exn + string)"
  w_transcribe :: "string \<Rightarrow> string \<Rightarrow> string list \<times> (exn + string option)"
  w_summarize :: "string \<Rightarrow> string \<Rightarrow> string \<Rightarrow> string list \<times> (exn + string option)"
  w_title :: "string \<Rightarrow> exn + string"

text \<open>\<open>x or ""\<close> and the truth value of an optional string.\<close>

definition or_empty :: "string option \<Rightarrow> string" where
  "or_empty x = (case x of None \<Rightarrow> [] | Some s \<Rightarrow> s)"

definition truthy_opt :: "string option \<Rightarrow> bool" where
  "truthy_opt x = (case x of None \<Rightarrow> False | Some s \<Rightarrow> s \<noteq> [])"

subsection \<open>\<open>AppState.run_job\<close>\<close>

text \<open>
  The body of the \<open>try\<close> block, cut at the comments \<open># Download\<close>, \<open># Transcribe\<close>
  and \<open># Summarize\<close> of the source. Each part returns the exception that left it, if
  any, and the recorder at that moment.
\<close>

definition run_summarize :: "world \<Rightarrow> string \<Rightarrow> recorder \<Rightarrow> exn option \<times> recorder" where
  "run_summarize w job_id r0 =
    (let r1 = save (assign (\<lambda>j. j\<lparr>status := Summarizing\<rparr>) r0);
         (ls, res) = (if transcript (fst r1) \<noteq> []
                      then w_summarize w job_id (transcript (fst r1)) (meeting_date (fst r1))
                      else ([], Inr None));
         r2 = emit ls r1
     in case res of
          Inl e \<Rightarrow> (Some e, r2)
        | Inr summ \<Rightarrow>
            let r3 = assign (\<lambda>j. j\<lparr>summary := or_empty summ\<rparr>) r2 in
            (case (if truthy_opt summ then w_title w (or_empty summ) else Inr (title (fst r3))) of
               Inl e \<Rightarrow> (Some e, r3)
             | Inr t \<Rightarrow>
                 let r4 = save (assign (\<lambda>j. j\<lparr>title := t\<rparr>) r3);
                     r5 = append_log (if truthy_opt summ
                                      then ''Summary complete: '' @ str_nat (length (or_empty summ)) @ '' chars''
                                      else ''Summary skipped or failed'') r4;
                     r6 = save (assign (\<lambda>j. j\<lparr>status := Completed\<rparr>) r5)
                 in (None, append_log ''Pipeline done.'' r6)))"

definition run_transcribe :: "world \<Rightarrow> string \<Rightarrow> string \<Rightarrow> recorder \<Rightarrow> exn option \<times> recorder" where
  "run_transcribe w job_id fp r0 =
    (let r1 = save (assign (\<lambda>j. j\<lparr>status := Transcribing\<rparr>) r0);
         (ls, res) = w_transcribe w job_id fp;
         r2 = emit ls r1
     in case res of
          Inl e \<Rightarrow> (Some e, r2)
        | Inr text \<Rightarrow>
            let r3 = save (assign (\<lambda>j. j\<lparr>transcript := or_empty text\<rparr>) r2);
                r4 = append_log (if truthy_opt text
                                 then ''Transcription complete: '' @ str_nat (length (or_empty text)) @ '' chars''
                                 else ''Transcription skipped or failed; proceeding'') r3
            in run_summarize w job_id r4)"

definition run_download :: "world \<Rightarrow> string \<Rightarrow> string \<Rightarrow> recorder \<Rightarrow> exn option \<times> recorder" where
  "run_download w job_id resolved r0 =
    (let r1 = save (assign (\<lambda>j. j\<lparr>status := Downloading\<rparr>) r0);
         (ls, res) = w_download w job_id resolved;
         r2 = emit ls r1
     in case res of
          Inl e \<Rightarrow> (Some e, r2)
        | Inr fp \<Rightarrow>
            let r3 = save (assign (\<lambda>j. j\<lparr>file_path := fp\<rparr>) r2);
                r4 = append_log (''Downloaded to '' @ fp) r3
            in run_transcribe w job_id fp r4)"

definition run_try :: "world \<Rightarrow> string \<Rightarrow> recorder \<Rightarrow> exn option \<times> recorder" where
  "run_try w job_id r0 =
    (let (ls, res) = w_resolve w job_id (url (fst r0));
         r1 = emit ls r0
     in case res of
          Inl e \<Rightarrow> (Some e, r1)
        | Inr resolved \<Rightarrow>
            run_download w job_id resolved
              (save (assign (\<lambda>j. j\<lparr>resolved_url := Some resolved\<rparr>) r1)))"

text \<open>
  The pipeline on the dictionary \<open>j\<close>, after the guard: status \<open>running\<close>, the first
  log line, the \<open>try\<close> block and its handler.
\<close>

definition run_pipeline :: "world \<Rightarrow> string \<Rightarrow> recorder \<Rightarrow> recorder" where
  "run_pipeline w job_id r0 =
    (let r1 = save (assign (\<lambda>j. j\<lparr>status := Running\<rparr>) r0);
         r2 = append_log ''Starting pipeline'' r1
     in case run_try w job_id r2 of
          (None, r3) \<Rightarrow> r3
        | (Some e, r3) \<Rightarrow>
            let msg = exn_type e @ '': '' @ exn_text e;
                r4 = save (assign (\<lambda>j. j\<lparr>status := Error, error := msg\<rparr>) r3)
            in append_log (''ERROR: '' @ msg) r4)"

text \<open>
  An operation of the store returns the new state and the job lists written to
  \<open>jobs.json\<close> on the way, oldest first. \<open>on_job\<close> runs a recorder on the job at
  position \<open>k\<close>: every save persists the list with that position updated.
\<close>

type_synonym outcome = "app \<times> job list list"

definition on_job :: "nat \<Rightarrow> (recorder \<Rightarrow> recorder) \<Rightarrow> app \<Rightarrow> outcome" where
  "on_job k f s =
    (let (j', saved) = f (jobs s ! k, [])
     in (s\<lparr>jobs := (jobs s)[k := j']\<rparr>, map (\<lambda>x. (jobs s)[k := x]) saved))"

definition in_pipeline :: "status \<Rightarrow> bool" where
  "in_pipeline st = (st = Running \<or> st = Downloading \<or> st = Transcribing \<or> st = Summarizing)"

definition run_job :: "world \<Rightarrow> string \<Rightarrow> app \<Rightarrow> outcome" where
  "run_job w job_id s =
    (case get_job (jobs s) job_id of
       None \<Rightarrow> (s, [])
     | Some k \<Rightarrow>
         if in_pipeline (status (jobs s ! k)) then (s, [])
         else on_job k (run_pipeline w job_id) s)"

subsection \<open>Retry, regenerate, create, delete, clear\<close>

text \<open>One operation after another: the second starts from the state the first left.\<close>

definition and_then :: "outcome \<Rightarrow> (app \<Rightarrow> outcome) \<Rightarrow> outcome" where
  "and_then a f = (let (s1, saved1) = a; (s2, saved2) = f s1 in (s2, saved1 @ saved2))"

text \<open>\<open>retry_current\<close>: the full reset of the selected job, then \<open>run_job\<close>.\<close>

definition retry_current :: "world \<Rightarrow> app \<Rightarrow> outcome" where
  "retry_current w s =
    (let job_id = current_job_id s in
     if job_id = [] then (s, [])
     else case get_job (jobs s) job_id of
       None \<Rightarrow> (s, [])
     | Some k \<Rightarrow>
         and_then
           (on_job k (\<lambda>r. save (assign (\<lambda>j. j\<lparr>status := Queued, error := [], logs := [],
                                              transcript := [], summary := []\<rparr>) r)) s)
           (run_job w job_id))"

text \<open>\<open>retry_job\<close>: the narrower reset, which writes the summary back as it was.\<close>

definition retry_job :: "world \<Rightarrow> string \<Rightarrow> app \<Rightarrow> outcome" where
  "retry_job w job_id s =
    (case get_job (jobs s) job_id of
       None \<Rightarrow> (s, [])
     | Some k \<Rightarrow>
         and_then
           (on_job k (\<lambda>r. save (assign (\<lambda>j. j\<lparr>status := Queued, error := [], logs := [],
                                              summary := summary j\<rparr>) r)) s)
           (run_job w job_id))"

text \<open>
  \<open>regenerate_summary_for\<close> on the dictionary \<open>j\<close>. Its handler sets the status only;
  the \<open>error\<close> field is not written.
\<close>

definition regenerate_on :: "world \<Rightarrow> string \<Rightarrow> recorder \<Rightarrow> recorder" where
  "regenerate_on w job_id r0 =
    (let tr = transcript (fst r0) in
     if tr = [] then append_log (''No transcript available '' @ arrow @ '' cannot summarize'') r0
     else
       let r1 = save (assign (\<lambda>j. j\<lparr>summary := [], status := Summarizing\<rparr>) r0);
           r2 = append_log ''Regenerating summary ...'' r1;
           (ls, res) = w_summarize w job_id tr (meeting_date (fst r2));
           r3 = emit ls r2;
           failed = (\<lambda>e r. append_log (''ERROR: summarize: '' @ exn_text e)
                               (save (assign (\<lambda>j. j\<lparr>status := Error\<rparr>) r)))
       in case res of
            Inl e \<Rightarrow> failed e r3
          | Inr summ \<Rightarrow>
              let r4 = assign (\<lambda>j. j\<lparr>summary := or_empty summ\<rparr>) r3 in
              (case (if truthy_opt summ then w_title w (or_empty summ) else Inr (title (fst r4))) of
                 Inl e \<Rightarrow> failed e r4
               | Inr t \<Rightarrow>
                   let r5 = save (assign (\<lambda>j. j\<lparr>title := t, status := Completed\<rparr>) r4)
                   in append_log (if truthy_opt summ
                                  then ''Summary regenerated: '' @ str_nat (length (or_empty summ)) @ '' chars''
                                  else ''Summary regeneration returned empty'') r5))"

definition regenerate_summary_for :: "world \<Rightarrow> string \<Rightarrow> app \<Rightarrow> outcome" where
  "regenerate_summary_for w job_id s =
    (case get_job (jobs s) job_id of
       None \<Rightarrow> (s, [])
     | Some k \<Rightarrow> on_job k (regenerate_on w job_id) s)"

text \<open>\<open>regenerate_summary\<close>: the same body, on the selected job.\<close>

definition regenerate_summary :: "world \<Rightarrow> app \<Rightarrow> outcome" where
  "regenerate_summary w s =
    (let job_id = current_job_id s in
     if job_id = [] then (s, [])
     else case get_job (jobs s) job_id of
       None \<Rightarrow> (s, [])
     | Some k \<Rightarrow> on_job k (regenerate_on w job_id) s)"

text \<open>
  \<open>str.strip()\<close>: the white space of Python among the code points below 256.
\<close>

definition isspace :: "char \<Rightarrow> bool" where
  "isspace c = (c \<in> set [CHR 0x09, CHR 0x0A, CHR 0x0B, CHR 0x0C, CHR 0x0D, CHR 0x1C, CHR 0x1D,
                          CHR 0x1E, CHR 0x1F, CHR 0x20, CHR 0x85, CHR 0xA0])"

definition strip :: "string \<Rightarrow> string" where
  "strip s = rev (dropWhile isspace (rev (dropWhile isspace s)))"

text \<open>
  \<open>add_job\<close>. The fresh id (\<open>uuid4().hex[:8]\<close>), the clock (\<open>created_at\<close> and its
  label) and the date found by \<open>_extract_date_from_url\<close> come from outside and are
  arguments.
\<close>

definition add_job :: "string \<Rightarrow> int \<Rightarrow> string \<Rightarrow> string \<Rightarrow> world \<Rightarrow> app \<Rightarrow> outcome" where
  "add_job job_id now label date w s =
    (let u = strip (audio_url s) in
     if u = [] then (s, [])
     else
       let new = \<lparr>jid = job_id, url = u, status = Queued, created_at = now, created_label = label,
                  meeting_date = date, title = [], path = ''/job/'' @ job_id, error = [],
                  file_path = [], resolved_url = None, transcript = [], summary = [], logs = []\<rparr>;
           s1 = s\<lparr>jobs := new # jobs s, current_job_id := job_id\<rparr>
       in and_then (s1, [jobs s1]) (run_job w job_id))"

definition select_job :: "string \<Rightarrow> app \<Rightarrow> outcome" where
  "select_job job_id s = (s\<lparr>current_job_id := job_id\<rparr>, [])"

text \<open>
  \<open>delete_current\<close>: the files on disk are outside the model; the record of every job
  with the selected id goes, and the first remaining job becomes the selection.
\<close>

definition delete_current :: "app \<Rightarrow> outcome" where
  "delete_current s =
    (let job_id = current_job_id s in
     if job_id = [] then (s, [])
     else
       let js = filter (\<lambda>j. jid j \<noteq> job_id) (jobs s);
           s1 = s\<lparr>jobs := js, current_job_id := (case js of [] \<Rightarrow> [] | j # _ \<Rightarrow> jid j)\<rparr>
       in (s1, [js]))"

definition delete_by_id :: "string \<Rightarrow> app \<Rightarrow> outcome" where
  "delete_by_id job_id s = delete_current (s\<lparr>current_job_id := job_id\<rparr>)"

text \<open>\<open>clear\<close>: saves in every case, also when the selected id names no job.\<close>

definition clear :: "app \<Rightarrow> outcome" where
  "clear s =
    (if current_job_id s \<noteq> [] then
       (case get_job (jobs s) (current_job_id s) of
          Some k \<Rightarrow>
            on_job k (\<lambda>r. save (assign (\<lambda>j. j\<lparr>logs := [], transcript := [], summary := [],
                                               error := [], status := Queued\<rparr>) r)) s
        | None \<Rightarrow> (s, [jobs s]))
     else (s\<lparr>jobs := []\<rparr>, [[]]))"

subsection \<open>Sequences of operations\<close>

datatype op =
    SetAudioUrl string
  | AddJob string int string string world
  | SelectJob string
  | RunJob string world
  | RetryCurrent world
  | RetryJob string world
  | RegenerateSummary world
  | RegenerateSummaryFor string world
  | DeleteCurrent
  | DeleteById string
  | Clear

fun exec :: "op \<Rightarrow> app \<Rightarrow> outcome" where
  "exec (SetAudioUrl u) s = (s\<lparr>audio_url := u\<rparr>, [])"
| "exec (AddJob job_id now label date w) s = add_job job_id now label date w s"
| "exec (SelectJob job_id) s = select_job job_id s"
| "exec (RunJob job_id w) s = run_job w job_id s"
| "exec (RetryCurrent w) s = retry_current w s"
| "exec (RetryJob job_id w) s = retry_job w job_id s"
| "exec (RegenerateSummary w) s = regenerate_summary w s"
| "exec (RegenerateSummaryFor job_id w) s = regenerate_summary_for w job_id s"
| "exec DeleteCurrent s = delete_current s"
| "exec (DeleteById job_id) s = delete_by_id job_id s"
| "exec Clear s = clear s"


subsection \<open>The status graph\<close>





subsection \<open>Invariants used in the proofs\<close>



definition settled :: "job \<Rightarrow> recorder \<Rightarrow> bool" where
  "settled j0 r = (fst r = last (j0 # snd r))"



subsection \<open>A concrete run\<close>

text \<open>
  A world in which the URL needs no resolution, the download succeeds, and neither the
  transcription nor the summarization service is configured; and the store after one
  job was created in it.
\<close>

definition calm_world :: world where
  "calm_world =
    \<lparr>w_resolve = (\<lambda>job_id u. ([], Inr u)),
     w_download = (\<lambda>job_id u. ([''Downloading audio ...''], Inr (''data/files/'' @ job_id @ ''.mp3''))),
     w_transcribe = (\<lambda>job_id fp. ([''ASSEMBLYAI_API_KEY not set; skipping transcription''], Inr None)),
     w_summarize = (\<lambda>job_id tx date. ([''OPENAI_* not set; skipping summarization''], Inr None)),
     w_title = (\<lambda>summ. Inr [])\<rparr>"

definition start_app :: app where
  "start_app = \<lparr>audio_url = [], jobs = [], current_job_id = []\<rparr>"

definition finished_app :: app where
  "finished_app =
    fst (exec (AddJob ''a1b2c3d4'' 0 [] [] calm_world)
          (fst (exec (SetAudioUrl ''https://example.com/a.mp3'') start_app)))"

subsection \<open>Terms of the statements about the store\<close>

text \<open>
  \<open>stuck_app\<close>: the store of the concrete run with its job left in \<open>downloading\<close>, as
  a snapshot read back after an interrupted run would have it. \<open>full_reset\<close> and
  \<open>cleared\<close>: the writes of \<open>retry_current\<close> and of \<open>clear\<close>. \<open>frame\<close>: two values of a
  job agree on the transcript, the resolved URL and the file path.
\<close>

definition stuck_app :: app where
  "stuck_app = finished_app\<lparr>jobs := map (\<lambda>j. j\<lparr>status := Downloading\<rparr>) (jobs finished_app)\<rparr>"

definition full_reset :: "job \<Rightarrow> job" where
  "full_reset j = j\<lparr>status := Queued, error := [], logs := [], transcript := [], summary := []\<rparr>"

definition frame :: "job \<Rightarrow> job \<Rightarrow> bool" where
  "frame j0 j = (transcript j = transcript j0 \<and> resolved_url j = resolved_url j0 \<and>
                 file_path j = file_path j0)"

definition framed :: "job \<Rightarrow> recorder \<Rightarrow> bool" where
  "framed j0 r = (frame j0 (fst r) \<and> list_all (frame j0) (snd r))"

definition store_frame :: "job list \<Rightarrow> job list \<Rightarrow> bool" where
  "store_frame js js' = list_all2 frame js js'"

definition cleared :: "job \<Rightarrow> job" where
  "cleared j = j\<lparr>logs := [], transcript := [], summary := [], error := [], status := Queued\<rparr>"

section \<open>The title extractor\<close>

subsection \<open>\<open>extract_title_from_summary\<close>\<close>

text \<open>
  The regular expressions of the function, written out as the matcher of Python's \<open>re\<close>
  runs them (leftmost match, greedy runs, backtracking), on texts with code points below
  256: there \<open>IGNORECASE\<close> folds the ASCII letters only and \<open>\s\<close> is the white space
  of \<open>isspace\<close>.

  \<open>re_sub_headers\<close> is \<open>re.sub(r'^#+\s*', '', summary, flags=re.MULTILINE)\<close>; its
  flag says whether the position is the start of a line. \<open>search_topic\<close> is group 1 of
  the first pattern: after a keyword the run of colons and white space is taken whole;
  if no character other than a newline or a full stop follows it, the matcher gives
  characters of the run back, and the group is the last of them that is not a newline.
  \<open>search_sentence\<close> is group 1 of the second pattern, tried at every start of a line.
\<close>

definition is_ascii_letter :: "char \<Rightarrow> bool" where
  "is_ascii_letter c = (c \<in> set ''ABCDEFGHIJKLMNOPQRSTUVWXYZabcdefghijklmnopqrstuvwxyz'')"

definition ascii_lower :: "char \<Rightarrow> char" where
  "ascii_lower c =
    (case map_of (zip ''ABCDEFGHIJKLMNOPQRSTUVWXYZ'' ''abcdefghijklmnopqrstuvwxyz'') c of
       Some l \<Rightarrow> l | None \<Rightarrow> c)"

definition newline :: char where
  "newline = CHR 0x0A"

function re_sub_headers :: "bool \<Rightarrow> string \<Rightarrow> string" where
  "re_sub_headers bol [] = []"
| "re_sub_headers bol (c # cs) =
    (if bol \<and> c = CHR ''#'' then
       (let after_hashes = dropWhile (\<lambda>x. x = CHR ''#'') cs;
            spaces = takeWhile isspace after_hashes
        in re_sub_headers (spaces \<noteq> [] \<and> last spaces = newline) (dropWhile isspace after_hashes))
     else c # re_sub_headers (c = newline) cs)"
  by pat_completeness auto

termination
proof (relation "measure (\<lambda>(bol, s). length s)")
  fix bol c cs
  have "length (dropWhile isspace (dropWhile (\<lambda>x. x = CHR ''#'') cs)) \<le> length cs"
    by (meson length_dropWhile_le order_trans)
  then show "bol \<and> c = CHR ''#'' \<Longrightarrow> x = dropWhile (\<lambda>x. x = CHR ''#'') cs \<Longrightarrow>
     xa = takeWhile isspace x \<Longrightarrow>
     ((xa \<noteq> [] \<and> last xa = newline, dropWhile isspace x), bol, c # cs) \<in> measure (\<lambda>(bol, s). length s)" for x xa
    by simp
qed auto

definition prefix_ci :: "string \<Rightarrow> string \<Rightarrow> bool" where
  "prefix_ci kw s = (map ascii_lower (take (length kw) s) = map ascii_lower kw)"

definition colon_or_space :: "char \<Rightarrow> bool" where
  "colon_or_space c = (c = CHR '':'' \<or> isspace c)"

definition topic_char :: "char \<Rightarrow> bool" where
  "topic_char c = (c \<noteq> newline \<and> c \<noteq> CHR ''.'')"

definition topic_group :: "string \<Rightarrow> string option" where
  "topic_group r =
    (let run = takeWhile colon_or_space r;
         g = takeWhile topic_char (dropWhile colon_or_space r)
     in if g \<noteq> [] then Some g
        else (case filter (\<lambda>c. c \<noteq> newline) run of [] \<Rightarrow> None | xs \<Rightarrow> Some [last xs]))"

fun topic_at :: "string list \<Rightarrow> string \<Rightarrow> string option" where
  "topic_at [] s = None"
| "topic_at (kw # kws) s =
    (if prefix_ci kw s
     then (case topic_group (drop (length kw) s) of Some g \<Rightarrow> Some g | None \<Rightarrow> topic_at kws s)
     else topic_at kws s)"

definition topic_keywords :: "string list" where
  "topic_keywords = [''Topic'', ''Subject'', ''Meeting about'', ''Discussion about'', ''Overview'']"

fun search_topic :: "string \<Rightarrow> string option" where
  "search_topic [] = None"
| "search_topic (c # cs) =
    (case topic_at topic_keywords (c # cs) of Some g \<Rightarrow> Some g | None \<Rightarrow> search_topic cs)"

definition sentence_char :: "char \<Rightarrow> bool" where
  "sentence_char c = (c \<noteq> CHR ''.'' \<and> c \<noteq> CHR ''!'' \<and> c \<noteq> CHR ''?'' \<and> c \<noteq> newline)"

definition sentence_at :: "string \<Rightarrow> string option" where
  "sentence_at s =
    (case s of
       [] \<Rightarrow> None
     | c # cs \<Rightarrow>
         let run = takeWhile sentence_char cs
         in if is_ascii_letter c \<and> 10 \<le> length run then Some (c # take 50 run) else None)"

fun search_sentence :: "bool \<Rightarrow> string \<Rightarrow> string option" where
  "search_sentence bol [] = None"
| "search_sentence bol (c # cs) =
    (case (if bol then sentence_at (c # cs) else None) of
       Some g \<Rightarrow> Some g
     | None \<Rightarrow> search_sentence (c = newline) cs)"

definition clean_markup :: "string \<Rightarrow> string" where
  "clean_markup s = filter (\<lambda>c. c \<noteq> CHR ''*'' \<and> c \<noteq> CHR ''_'' \<and> c \<noteq> CHR ''#'') s"

definition limit50 :: "string \<Rightarrow> string" where
  "limit50 s = (if 50 < length s then take 47 s @ ''...'' else s)"

fun split_on :: "char \<Rightarrow> string \<Rightarrow> string list" where
  "split_on d [] = [[]]"
| "split_on d (c # cs) =
    (if c = d then [] # split_on d cs
     else (case split_on d cs of [] \<Rightarrow> [[c]] | l # ls \<Rightarrow> (c # l) # ls))"

definition first_line_title :: "string \<Rightarrow> string option" where
  "first_line_title s = List.find (\<lambda>l. 10 < length l) (map strip (take 5 (split_on newline s)))"

definition extract_title_from_summary :: "string \<Rightarrow> string" where
  "extract_title_from_summary summ =
    (if summ = [] then []
     else
       let s = re_sub_headers True summ in
       case search_topic s of
         Some g \<Rightarrow> limit50 (clean_markup (strip g))
       | None \<Rightarrow>
           (case search_sentence True s of
              Some g \<Rightarrow> limit50 (clean_markup (strip g))
            | None \<Rightarrow>
                (case first_line_title s of
                   Some l \<Rightarrow> limit50 (clean_markup l)
                 | None \<Rightarrow> ''Meeting Summary'')))"

section \<open>The summarizer\<close>

subsection \<open>Parsed JSON\<close>

text \<open>
  What \<open>json.loads\<close> returns. A float is a mantissa and a binary exponent (the finite
  ones; the code reads a number only for its truth value and its \<open>str\<close>). A dictionary
  is its items in order, looked up by the first entry of a key. \<open>json.loads\<close> itself and
  \<open>str\<close> on a value that is not a string belong to Python and are arguments
  (\<open>loads\<close>, \<open>None\<close> where it raises, and \<open>repr\<close>).
\<close>

datatype pyval =
    PNone
  | PBool bool
  | PInt int
  | PFloat int int
  | PStr string
  | PList "pyval list"
  | PDict "(string \<times> pyval) list"

fun truthy :: "pyval \<Rightarrow> bool" where
  "truthy PNone = False"
| "truthy (PBool b) = b"
| "truthy (PInt i) = (i \<noteq> 0)"
| "truthy (PFloat m e) = (m \<noteq> 0)"
| "truthy (PStr s) = (s \<noteq> [])"
| "truthy (PList xs) = (xs \<noteq> [])"
| "truthy (PDict kvs) = (kvs \<noteq> [])"

definition dict_get :: "(string \<times> pyval) list \<Rightarrow> string \<Rightarrow> pyval \<Rightarrow> pyval" where
  "dict_get kvs key dflt = (case map_of kvs key of Some v \<Rightarrow> v | None \<Rightarrow> dflt)"

definition py_str :: "(pyval \<Rightarrow> string) \<Rightarrow> pyval \<Rightarrow> string" where
  "py_str repr v = (case v of PStr s \<Rightarrow> s | _ \<Rightarrow> repr v)"

definition text_items :: "(pyval \<Rightarrow> string) \<Rightarrow> string list \<Rightarrow> pyval list \<Rightarrow> string" where
  "text_items repr types items =
    concat (map (\<lambda>item. case item of
                   PDict kvs \<Rightarrow>
                     (case dict_get kvs ''type'' PNone of
                        PStr ty \<Rightarrow> if ty \<in> set types then py_str repr (dict_get kvs ''text'' (PStr [])) else []
                      | _ \<Rightarrow> [])
                 | _ \<Rightarrow> []) items)"

definition bare_output :: "(pyval \<Rightarrow> string) \<Rightarrow> string \<Rightarrow> (string \<times> pyval) list \<Rightarrow> string" where
  "bare_output repr content kvs =
    (case dict_get kvs ''output'' PNone of
       PList out \<Rightarrow> content @ text_items repr [''output_text''] out
     | _ \<Rightarrow> content)"

definition delta_event :: "(pyval \<Rightarrow> string) \<Rightarrow> string \<Rightarrow> (string \<times> pyval) list \<Rightarrow> string" where
  "delta_event repr content kvs =
    (let t = dict_get kvs ''type'' PNone in
     if t = PStr ''output_text.delta'' then content @ py_str repr (dict_get kvs ''delta'' (PStr []))
     else if t = PStr ''response.output_text.delta'' then content @ py_str repr (dict_get kvs ''delta'' (PStr []))
     else if t = PStr ''message.delta'' \<or> t = PStr ''response.message.delta'' then
       (case dict_get kvs ''delta'' (PDict []) of
          PDict dkvs \<Rightarrow>
            (case dict_get dkvs ''content'' PNone of
               PList cont \<Rightarrow> content @ text_items repr [''output_text'', ''text''] cont
             | _ \<Rightarrow> bare_output repr content kvs)
        | _ \<Rightarrow> bare_output repr content kvs)
     else bare_output repr content kvs)"

definition handle_event :: "(pyval \<Rightarrow> string) \<Rightarrow> string \<Rightarrow> pyval \<Rightarrow> string" where
  "handle_event repr content obj =
    (case obj of
       PDict kvs \<Rightarrow>
         if truthy (dict_get kvs ''output_text'' PNone)
         then strip (py_str repr (dict_get kvs ''output_text'' PNone))
         else (case dict_get kvs ''response'' PNone of
                 PDict rkvs \<Rightarrow>
                   if truthy (dict_get rkvs ''output_text'' PNone)
                   then strip (py_str repr (dict_get rkvs ''output_text'' PNone))
                   else (case dict_get rkvs ''output'' PNone of
                           PList out \<Rightarrow> content @ text_items repr [''output_text''] out
                         | _ \<Rightarrow> delta_event repr content kvs)
               | _ \<Rightarrow> delta_event repr content kvs)
     | _ \<Rightarrow> content)"

fun read_stream ::
  "(string \<Rightarrow> pyval option) \<Rightarrow> (pyval \<Rightarrow> string) \<Rightarrow> exn option \<Rightarrow> string \<Rightarrow> string list \<Rightarrow> exn + string"
where
  "read_stream loads repr ending content [] = (case ending of Some e \<Rightarrow> Inl e | None \<Rightarrow> Inr content)"
| "read_stream loads repr ending content (raw_line # rest) =
    (if raw_line = [] then read_stream loads repr ending content rest
     else
       let line = strip raw_line in
       if prefix ''data:'' line then
         (let payload = strip (drop 5 line) in
          if payload = ''[DONE]'' then Inr content
          else (case loads payload of
                  None \<Rightarrow> read_stream loads repr ending content rest
                | Some obj \<Rightarrow> read_stream loads repr ending (handle_event repr content obj) rest))
       else read_stream loads repr ending content rest)"

record gpt_response =
  status_code :: nat
  body_lines :: "string list"
  broken :: "exn option"

record gpt_env =
  openai_api_key :: string
  openai_base_url :: string
  prompt_text :: string
  http_post :: "string \<Rightarrow> string \<Rightarrow> exn + gpt_response"
  json_loads :: "string \<Rightarrow> pyval option"
  py_repr :: "pyval \<Rightarrow> string"

definition rstrip_slash :: "string \<Rightarrow> string" where
  "rstrip_slash s = rev (dropWhile (\<lambda>c. c = CHR ''/'') (rev s))"

definition summarize_with_gpt ::
  "gpt_env \<Rightarrow> string \<Rightarrow> string \<Rightarrow> string \<Rightarrow> string list \<times> (exn + string option)"
where
  "summarize_with_gpt env job_id text date =
    (if \<not> (openai_api_key env \<noteq> [] \<and> openai_base_url env \<noteq> [])
     then ([''OPENAI_* not set '' @ arrow @ '' skipping summarization''], Inr None)
     else
       let address = rstrip_slash (openai_base_url env) @ ''/v1/responses'';
           message = prompt_text env
                     @ (if date \<noteq> [] then [newline, newline] @ ''Meeting Date: '' @ date else [])
                     @ [newline, newline] @ ''Transcript:'' @ [newline] @ text;
           calling = ''Calling GPT endpoint (Responses API, stream) ...'';
           failed = (\<lambda>e. ([calling, ''GPT error: '' @ exn_text e @ ''; skipping''], Inr None))
       in case http_post env address message of
            Inl e \<Rightarrow> failed e
          | Inr r \<Rightarrow>
              if 400 \<le> status_code r
              then ([calling, ''GPT endpoint HTTP '' @ str_nat (status_code r) @ ''; skipping''], Inr None)
              else (case read_stream (json_loads env) (py_repr env) (broken r) [] (body_lines r) of
                      Inl e \<Rightarrow> failed e
                    | Inr buffer \<Rightarrow>
                        let content = strip buffer in
                        if content = [] then ([calling, ''GPT returned empty content''], Inr None)
                        else ([calling, ''GPT call complete''], Inr (Some content))))"

definition earlier_shape :: "(string \<times> pyval) list \<Rightarrow> bool" where
  "earlier_shape kvs =
    (truthy (dict_get kvs ''output_text'' PNone) \<or>
     (case dict_get kvs ''response'' PNone of
        PDict rkvs \<Rightarrow>
          truthy (dict_get rkvs ''output_text'' PNone) \<or>
          (case dict_get rkvs ''output'' PNone of PList out \<Rightarrow> True | _ \<Rightarrow> False)
      | _ \<Rightarrow> False))"

definition hello_payload1 :: string where
  \<open>hello_payload1 = ''{"type":"response.output_text.delta","delta":"Hello "}''\<close>

definition hello_payload2 :: string where
  \<open>hello_payload2 = ''{"type":"response.output_text.delta","delta":"world"}''\<close>

definition hello_event1 :: pyval where
  "hello_event1 = PDict [(''type'', PStr ''response.output_text.delta''), (''delta'', PStr ''Hello '')]"

definition hello_event2 :: pyval where
  "hello_event2 = PDict [(''type'', PStr ''response.output_text.delta''), (''delta'', PStr ''world'')]"

definition hello_lines :: "string list" where
  "hello_lines = [''data: '' @ hello_payload1, ''data: '' @ hello_payload2, ''data: [DONE]'']"

definition both_shapes :: "(string \<times> pyval) list" where
  "both_shapes = [(''type'', PStr ''output_text.delta''), (''delta'', PStr ''x''),
                  (''output_text'', PStr ''full'')]"

definition no_repr :: "pyval \<Rightarrow> string" where
  "no_repr v = []"

definition hello_response :: gpt_response where
  "hello_response = \<lparr>status_code = 200, body_lines = hello_lines, broken = None\<rparr>"

definition hello_env :: gpt_env where
  "hello_env =
    \<lparr>openai_api_key = ''sk-test'', openai_base_url = ''https://api.example.com/'',
     prompt_text = ''Summarize this transcript clearly and concisely.'',
     http_post = (\<lambda>address message. Inr hello_response),
     json_loads = map_of [(hello_payload1, hello_event1), (hello_payload2, hello_event2)],
     py_repr = no_repr\<rparr>"

section \<open>Properties of the orchestrator\<close>

lemma get_job_from_bounds:
  "get_job_from k js job_id = Some i \<Longrightarrow> k \<le> i \<and> i < k + length js \<and> jid (js ! (i - k)) = job_id"
proof (induction js arbitrary: k)
  case Nil
  then show ?case by simp
next
  case (Cons j js)
  show ?case
  proof (cases "jid j = job_id")
    case True
    with Cons.prems show ?thesis by simp
  next
    case False
    with Cons.prems have "get_job_from (Suc k) js job_id = Some i" by simp
    from Cons.IH[OF this] show ?thesis
      by (auto simp: nth_Cons' Suc_diff_le)
  qed
qed

lemma get_job_Some:
  "get_job js job_id = Some i \<Longrightarrow> i < length js \<and> jid (js ! i) = job_id"
  using get_job_from_bounds[of 0 js job_id i] by (simp add: get_job_def)

text \<open>
  C2. Running a job whose status is running, downloading, transcribing or summarizing
  changes nothing: the state is returned as it was and nothing is written, so no field
  of any job changes and no log line is appended.
\<close>

theorem run_job_guard_noop:
  "get_job (jobs s) job_id = Some k \<Longrightarrow> in_pipeline (status (jobs s ! k)) \<Longrightarrow>
   run_job w job_id s = (s, [])"
  by (simp add: run_job_def)









lemma settled_init: "settled j (j, [])"
  by (simp add: settled_def)


























lemma finished_jobs:
  "jobs finished_app =
    [\<lparr>jid = ''a1b2c3d4'', url = ''https://example.com/a.mp3'', status = Completed, created_at = 0,
      created_label = [], meeting_date = [], title = [], path = ''/job/a1b2c3d4'', error = [],
      file_path = ''data/files/a1b2c3d4.mp3'', resolved_url = Some ''https://example.com/a.mp3'',
      transcript = [], summary = [],
      logs = [''Starting pipeline'', ''Downloading audio ...'', ''Downloaded to data/files/a1b2c3d4.mp3'',
              ''ASSEMBLYAI_API_KEY not set; skipping transcription'',
              ''Transcription skipped or failed; proceeding'', ''Summary skipped or failed'',
              ''Pipeline done.'']\<rparr>]"
  by (simp add: finished_app_def start_app_def add_job_def strip_def isspace_def and_then_def
      run_job_def get_job_def in_pipeline_def on_job_def run_pipeline_def run_try_def run_download_def
      run_transcribe_def run_summarize_def calm_world_def emit_def append_log_def save_def assign_def
      or_empty_def truthy_opt_def Let_def)






lemma stuck_get: "get_job (jobs stuck_app) ''a1b2c3d4'' = Some 0"
  by (simp add: stuck_app_def finished_jobs get_job_def)

lemma finished_get: "get_job (jobs finished_app) ''a1b2c3d4'' = Some 0"
  by (simp add: finished_jobs get_job_def)

lemma finished_current: "current_job_id finished_app = ''a1b2c3d4''"
  by (simp add: finished_app_def start_app_def add_job_def strip_def isspace_def and_then_def
      run_job_def on_job_def Let_def split: option.splits prod.splits)

theorem run_job_guard_noop_witness:
  "get_job (jobs stuck_app) ''a1b2c3d4'' = Some 0 \<and>
   in_pipeline (status (jobs stuck_app ! 0)) \<and>
   run_job calm_world ''a1b2c3d4'' stuck_app = (stuck_app, [])"
proof -
  have h: "in_pipeline (status (jobs stuck_app ! 0))"
    by (simp add: stuck_app_def finished_jobs in_pipeline_def)
  from run_job_guard_noop[OF stuck_get h, of calm_world] stuck_get h show ?thesis by simp
qed

text \<open>
  C3. \<open>retry_current\<close> on a selected job whose status is \<open>completed\<close>: the first job
  list written has that job with status \<open>queued\<close> and empty logs, transcript, summary and
  error, every other field and job as before; what is written after it is the run of the
  pipeline from that state.
\<close>

theorem retry_current_resets:
  assumes "current_job_id s \<noteq> []"
    and "get_job (jobs s) (current_job_id s) = Some k"
    and "status (jobs s ! k) = Completed"
  shows "snd (retry_current w s) =
           (jobs s)[k := full_reset (jobs s ! k)] #
           snd (run_job w (current_job_id s) (s\<lparr>jobs := (jobs s)[k := full_reset (jobs s ! k)]\<rparr>)) \<and>
         status (full_reset (jobs s ! k)) = Queued \<and> logs (full_reset (jobs s ! k)) = [] \<and>
         transcript (full_reset (jobs s ! k)) = [] \<and> summary (full_reset (jobs s ! k)) = [] \<and>
         error (full_reset (jobs s ! k)) = [] \<and>
         hd (snd (retry_current w s)) ! k = full_reset (jobs s ! k)"
proof -
  have k: "k < length (jobs s)" using assms(2) get_job_Some by blast
  have "snd (retry_current w s) =
           (jobs s)[k := full_reset (jobs s ! k)] #
           snd (run_job w (current_job_id s) (s\<lparr>jobs := (jobs s)[k := full_reset (jobs s ! k)]\<rparr>))"
    using assms(1,2)
    by (simp add: retry_current_def Let_def and_then_def on_job_def save_def assign_def full_reset_def
        split: prod.splits)
  then show ?thesis using k by (simp add: full_reset_def)
qed

theorem retry_current_resets_witness:
  "current_job_id finished_app \<noteq> [] \<and>
   get_job (jobs finished_app) (current_job_id finished_app) = Some 0 \<and>
   status (jobs finished_app ! 0) = Completed \<and>
   status (hd (snd (retry_current calm_world finished_app)) ! 0) = Queued \<and>
   logs (hd (snd (retry_current calm_world finished_app)) ! 0) = []"
proof -
  have a: "current_job_id finished_app \<noteq> []" by (simp add: finished_current)
  have b: "get_job (jobs finished_app) (current_job_id finished_app) = Some 0"
    by (simp add: finished_current finished_get)
  have c: "status (jobs finished_app ! 0) = Completed" by (simp add: finished_jobs)
  from retry_current_resets[OF a b c, of calm_world] a b c show ?thesis
    by (simp add: finished_jobs full_reset_def)
qed

lemma framed_init: "framed j (j, [])"
  by (simp add: framed_def frame_def)

lemma framed_save: "framed j0 r \<Longrightarrow> framed j0 (save r)"
  by (simp add: framed_def save_def)

lemma framed_assign: "framed j0 r \<Longrightarrow> frame (fst r) (f (fst r)) \<Longrightarrow> framed j0 (assign f r)"
  by (simp add: framed_def assign_def frame_def)

lemma framed_append_log: "framed j0 r \<Longrightarrow> framed j0 (append_log l r)"
  by (simp add: append_log_def framed_save framed_assign frame_def)

lemma framed_emit: "framed j0 r \<Longrightarrow> framed j0 (emit ls r)"
  unfolding emit_def by (induction ls arbitrary: r) (simp_all add: framed_append_log)

lemma regenerate_on_framed: "framed j0 r \<Longrightarrow> framed j0 (regenerate_on w job_id r)"
  unfolding regenerate_on_def Let_def
  by (auto split: prod.splits sum.splits
      simp: framed_append_log framed_save framed_assign framed_emit frame_def)

lemma on_job_framed:
  assumes "framed (jobs s ! k) (f (jobs s ! k, []))"
  shows "list_all (store_frame (jobs s)) (jobs (fst (on_job k f s)) # snd (on_job k f s))"
proof -
  obtain j' saved where r: "f (jobs s ! k, []) = (j', saved)" by (metis surj_pair)
  have upd: "store_frame (jobs s) ((jobs s)[k := x])" if "frame (jobs s ! k) x" for x
  proof -
    have "frame (jobs s ! i) ((jobs s)[k := x] ! i)" if "i < length (jobs s)" for i
      using that \<open>frame (jobs s ! k) x\<close> by (cases "i = k") (simp_all add: frame_def)
    then show ?thesis by (simp add: store_frame_def list_all2_conv_all_nth)
  qed
  from assms r have "frame (jobs s ! k) j'" and "list_all (frame (jobs s ! k)) saved"
    by (simp_all add: framed_def)
  then show ?thesis
    using r upd by (simp add: on_job_def list_all_iff)
qed

lemma store_frame_refl: "store_frame js js"
  by (simp add: store_frame_def list_all2_conv_all_nth frame_def)

text \<open>
  C4. Regenerate-summary, in both variants and whatever the summarizer and the title
  generator log, return or raise: every job list written, and the final one, agrees with
  the list before, job by job, on transcript, resolved URL and file path.
\<close>

theorem regenerate_frame:
  "list_all (store_frame (jobs s))
     (jobs (fst (regenerate_summary_for w job_id s)) # snd (regenerate_summary_for w job_id s)) \<and>
   list_all (store_frame (jobs s))
     (jobs (fst (regenerate_summary w s)) # snd (regenerate_summary w s))"
proof -
  have on: "list_all (store_frame (jobs s))
      (jobs (fst (on_job k (regenerate_on w i) s)) # snd (on_job k (regenerate_on w i) s))" for k i
    by (intro on_job_framed regenerate_on_framed framed_init)
  have "list_all (store_frame (jobs s))
     (jobs (fst (regenerate_summary_for w job_id s)) # snd (regenerate_summary_for w job_id s))"
    using on by (cases "get_job (jobs s) job_id") (simp_all add: regenerate_summary_for_def store_frame_refl)
  moreover have "list_all (store_frame (jobs s))
     (jobs (fst (regenerate_summary w s)) # snd (regenerate_summary w s))"
    using on
    by (cases "get_job (jobs s) (current_job_id s)")
       (simp_all add: regenerate_summary_def Let_def store_frame_refl)
  ultimately show ?thesis by blast
qed

lemma get_job_from_first:
  "get_job_from k js job_id = Some i \<Longrightarrow> \<forall>m<i - k. jid (js ! m) \<noteq> job_id"
proof (induction js arbitrary: k)
  case Nil
  then show ?case by simp
next
  case (Cons j js)
  show ?case
  proof (cases "jid j = job_id")
    case True
    with Cons.prems show ?thesis by simp
  next
    case False
    with Cons.prems have g: "get_job_from (Suc k) js job_id = Some i" by simp
    from get_job_from_bounds[OF g] have "Suc k \<le> i" by simp
    from Cons.IH[OF g] have ih: "\<forall>m<i - Suc k. jid (js ! m) \<noteq> job_id" .
    show ?thesis
    proof (intro allI impI)
      fix m assume m: "m < i - k"
      show "jid ((j # js) ! m) \<noteq> job_id"
      proof (cases m)
        case 0
        with False show ?thesis by simp
      next
        case (Suc n)
        with m have "n < i - Suc k" by simp
        with ih Suc show ?thesis by simp
      qed
    qed
  qed
qed

lemma get_job_first: "get_job js job_id = Some i \<Longrightarrow> \<forall>m<i. jid (js ! m) \<noteq> job_id"
  using get_job_from_first[of 0 js job_id i] by (simp add: get_job_def)

text \<open>
  C10. \<open>clear\<close> with a selected id resets the first job with that id (logs, transcript,
  summary and error emptied, status \<open>queued\<close>) and leaves every other job as it was (all
  jobs, when no job has the id); with no selected id it empties the store. The selection
  itself is kept.
\<close>

theorem clear_selected_or_all:
  "(current_job_id s \<noteq> [] \<longrightarrow>
      (case get_job (jobs s) (current_job_id s) of
         Some k \<Rightarrow> k < length (jobs s) \<and> jid (jobs s ! k) = current_job_id s \<and>
                   (\<forall>m<k. jid (jobs s ! m) \<noteq> current_job_id s) \<and>
                   jobs (fst (clear s)) = (jobs s)[k := cleared (jobs s ! k)]
       | None \<Rightarrow> jobs (fst (clear s)) = jobs s)) \<and>
   (current_job_id s = [] \<longrightarrow> jobs (fst (clear s)) = []) \<and>
   current_job_id (fst (clear s)) = current_job_id s"
  using get_job_Some[of "jobs s" "current_job_id s"] get_job_first[of "jobs s" "current_job_id s"]
  by (auto simp: clear_def on_job_def save_def assign_def cleared_def split: option.splits)

theorem clear_selected_or_all_witness:
  "current_job_id finished_app \<noteq> [] \<and>
   get_job (jobs finished_app) (current_job_id finished_app) = Some 0 \<and>
   jobs (fst (clear finished_app)) = [cleared (jobs finished_app ! 0)] \<and>
   current_job_id start_app = [] \<and> jobs (fst (clear start_app)) = []"
proof -
  have a: "current_job_id finished_app \<noteq> []" by (simp add: finished_current)
  have b: "get_job (jobs finished_app) (current_job_id finished_app) = Some 0"
    by (simp add: finished_current finished_get)
  have "jobs (fst (clear finished_app)) = (jobs finished_app)[0 := cleared (jobs finished_app ! 0)]"
    using clear_selected_or_all[of finished_app] a b by simp
  then have c: "jobs (fst (clear finished_app)) = [cleared (jobs finished_app ! 0)]"
    by (simp add: finished_jobs)
  have d: "current_job_id start_app = []" by (simp add: start_app_def)
  with clear_selected_or_all[of start_app] have "jobs (fst (clear start_app)) = []" by simp
  with a b c d show ?thesis by simp
qed

lemma find_none_all: "List.find P xs = None \<longleftrightarrow> list_all (\<lambda>x. \<not> P x) xs"
  by (induction xs) auto

lemma first_line_title_none:
  "first_line_title s = None \<longleftrightarrow>
   list_all (\<lambda>l. length (strip l) \<le> 10) (take 5 (split_on newline s))"
  by (simp add: first_line_title_def find_none_all list_all_iff not_less)

lemma limit50_length: "length (limit50 t) \<le> 50"
  by (simp add: limit50_def)

lemma extract_title_length: "length (extract_title_from_summary summ) \<le> 50"
  by (simp add: extract_title_from_summary_def Let_def limit50_length split: option.splits)

text \<open>
  C9, as stated, fails at the empty string: no pattern matches in it and it has no line
  longer than 10, yet the function returns the empty string, not the default title (the
  guard \<open>if not summary: return ""\<close> comes first).
\<close>

theorem title_default_counterexample:
  "search_topic (re_sub_headers True []) = None \<and>
   search_sentence True (re_sub_headers True []) = None \<and>
   list_all (\<lambda>l. length (strip l) \<le> 10) (take 5 (split_on newline (re_sub_headers True []))) \<and>
   extract_title_from_summary [] \<noteq> ''Meeting Summary''"
  by (simp add: extract_title_from_summary_def strip_def)

text \<open>
  C9, amended. The function is total. On the empty string it returns the empty string.
  On a non-empty summary (searched after the markdown headers are removed) in which
  neither pattern matches and none of the first 5 lines is longer than 10 after
  stripping, it returns \<open>Meeting Summary\<close>. Otherwise it returns the stripped group of
  the first pattern that matches, or else the first such line, without the markup
  characters, cut to 47 characters and \<open>...\<close> when longer than 50. The result never
  exceeds 50 characters.
\<close>

theorem title_extraction:
  "extract_title_from_summary [] = [] \<and>
   (summ \<noteq> [] \<and> search_topic (re_sub_headers True summ) = None \<and>
    search_sentence True (re_sub_headers True summ) = None \<and>
    list_all (\<lambda>l. length (strip l) \<le> 10) (take 5 (split_on newline (re_sub_headers True summ)))
    \<longrightarrow> extract_title_from_summary summ = ''Meeting Summary'') \<and>
   (summ \<noteq> [] \<and> search_topic (re_sub_headers True summ) = Some g
    \<longrightarrow> extract_title_from_summary summ = limit50 (clean_markup (strip g))) \<and>
   (summ \<noteq> [] \<and> search_topic (re_sub_headers True summ) = None \<and>
    search_sentence True (re_sub_headers True summ) = Some g
    \<longrightarrow> extract_title_from_summary summ = limit50 (clean_markup (strip g))) \<and>
   (summ \<noteq> [] \<and> search_topic (re_sub_headers True summ) = None \<and>
    search_sentence True (re_sub_headers True summ) = None \<and>
    first_line_title (re_sub_headers True summ) = Some l
    \<longrightarrow> extract_title_from_summary summ = limit50 (clean_markup l) \<and> 10 < length l) \<and>
   (50 < length t \<longrightarrow> limit50 t = take 47 t @ ''...'' \<and> length (limit50 t) = 50) \<and>
   (length t \<le> 50 \<longrightarrow> limit50 t = t) \<and>
   length (extract_title_from_summary summ) \<le> 50"
proof -
  have l: "10 < length l" if "first_line_title (re_sub_headers True summ) = Some l"
    using that by (auto simp: first_line_title_def find_Some_iff)
  show ?thesis
    using l first_line_title_none[of "re_sub_headers True summ"] extract_title_length[of summ]
    by (auto simp: extract_title_from_summary_def Let_def limit50_def)
qed

theorem title_extraction_witness:
  "extract_title_from_summary ''short'' = ''Meeting Summary'' \<and>
   extract_title_from_summary ''Topic: **Budget review** for Q3. More'' = ''Budget review for Q3'' \<and>
   extract_title_from_summary ''We talked about many things today and yesterday and also tomorrow. End''
     = ''We talked about many things today and yesterday...'' \<and>
   extract_title_from_summary ''12345678901 is long'' = ''12345678901 is long''"
proof -
  let ?a = "''short''"
  have a0: "?a \<noteq> []" by simp
  have a1: "search_topic (re_sub_headers True ?a) = None" by code_simp
  have a2: "search_sentence True (re_sub_headers True ?a) = None" by code_simp
  have a3: "list_all (\<lambda>l. length (strip l) \<le> 10) (take 5 (split_on newline (re_sub_headers True ?a)))"
    by code_simp
  have a: "extract_title_from_summary ?a = ''Meeting Summary''"
    using title_extraction[of ?a] a0 a1 a2 a3 by blast
  let ?b = "''Topic: **Budget review** for Q3. More''"
  let ?bg = "''**Budget review** for Q3''"
  have b0: "?b \<noteq> []" by simp
  have b1: "search_topic (re_sub_headers True ?b) = Some ?bg" by code_simp
  have b2: "limit50 (clean_markup (strip ?bg)) = ''Budget review for Q3''" by code_simp
  have "extract_title_from_summary ?b = limit50 (clean_markup (strip ?bg))"
    using title_extraction[of ?b ?bg] b0 b1 by blast
  from this b2 have b: "extract_title_from_summary ?b = ''Budget review for Q3''"
    by (rule trans)
  let ?c = "''We talked about many things today and yesterday and also tomorrow. End''"
  let ?cg = "''We talked about many things today and yesterday and''"
  have c0: "?c \<noteq> []" by simp
  have c1: "search_topic (re_sub_headers True ?c) = None" by code_simp
  have c2: "search_sentence True (re_sub_headers True ?c) = Some ?cg" by code_simp
  have c3: "limit50 (clean_markup (strip ?cg)) = ''We talked about many things today and yesterday...''"
    by code_simp
  have "extract_title_from_summary ?c = limit50 (clean_markup (strip ?cg))"
    using title_extraction[of ?c _ ?cg] c0 c1 c2 by blast
  from this c3 have c: "extract_title_from_summary ?c = ''We talked about many things today and yesterday...''"
    by (rule trans)
  let ?d = "''12345678901 is long''"
  have d0: "?d \<noteq> []" by simp
  have d1: "search_topic (re_sub_headers True ?d) = None" by code_simp
  have d2: "search_sentence True (re_sub_headers True ?d) = None" by code_simp
  have d3: "first_line_title (re_sub_headers True ?d) = Some ?d" by code_simp
  have d4: "limit50 (clean_markup ?d) = ?d" by code_simp
  have "extract_title_from_summary ?d = limit50 (clean_markup ?d)"
    using title_extraction[of ?d _ ?d] d0 d1 d2 d3 by blast
  from this d4 have d: "extract_title_from_summary ?d = ?d"
    by (rule trans)
  from a b c d show ?thesis by blast
qed

lemma handle_event_later:
  assumes "\<not> earlier_shape kvs"
  shows "handle_event repr content (PDict kvs) = delta_event repr content kvs"
proof (cases "dict_get kvs ''response'' PNone")
  case (PDict rkvs)
  with assms show ?thesis
    by (cases "dict_get rkvs ''output'' PNone") (simp_all add: handle_event_def earlier_shape_def)
qed (use assms in \<open>simp_all add: handle_event_def earlier_shape_def\<close>)

lemma delta_appends:
  assumes "dict_get kvs ''type'' PNone = PStr ''output_text.delta'' \<or>
           dict_get kvs ''type'' PNone = PStr ''response.output_text.delta''"
    and "\<not> earlier_shape kvs"
  shows "handle_event repr content (PDict kvs) = content @ py_str repr (dict_get kvs ''delta'' (PStr []))"
  using assms(1) unfolding handle_event_later[OF assms(2)]
  by (auto simp: delta_event_def Let_def)

lemma read_stream_data:
  assumes "raw \<noteq> []" and "prefix ''data:'' (strip raw)"
    and "strip (drop 5 (strip raw)) \<noteq> ''[DONE]''"
    and "loads (strip (drop 5 (strip raw))) = Some obj"
  shows "read_stream loads repr ending content (raw # rest) =
         read_stream loads repr ending (handle_event repr content obj) rest"
  using assms by (simp add: Let_def)

lemma read_stream_done:
  assumes "raw \<noteq> []" and "prefix ''data:'' (strip raw)"
    and "strip (drop 5 (strip raw)) = ''[DONE]''"
  shows "read_stream loads repr ending content (raw # rest) = Inr content"
  using assms by (simp add: Let_def)

lemma hello_payloads:
  "''data: '' @ hello_payload1 \<noteq> []"
  "prefix ''data:'' (strip (''data: '' @ hello_payload1))"
  "strip (drop 5 (strip (''data: '' @ hello_payload1))) = hello_payload1"
  "''data: '' @ hello_payload2 \<noteq> []"
  "prefix ''data:'' (strip (''data: '' @ hello_payload2))"
  "strip (drop 5 (strip (''data: '' @ hello_payload2))) = hello_payload2"
  "prefix ''data:'' (strip ''data: [DONE]'')"
  "strip (drop 5 (strip ''data: [DONE]'')) = ''[DONE]''"
  "hello_payload1 \<noteq> ''[DONE]''" "hello_payload2 \<noteq> ''[DONE]''"
  by code_simp+

lemma hello_handled:
  "handle_event repr [] hello_event1 = ''Hello ''"
  "handle_event repr ''Hello '' hello_event2 = ''Hello world''"
  by (simp_all add: hello_event1_def hello_event2_def handle_event_def delta_event_def
      dict_get_def py_str_def)

lemma hello_stream:
  assumes l1: "loads hello_payload1 = Some hello_event1"
    and l2: "loads hello_payload2 = Some hello_event2"
  shows "read_stream loads repr ending [] hello_lines = Inr ''Hello world''"
proof -
  have s1: "read_stream loads repr ending [] hello_lines =
        read_stream loads repr ending (handle_event repr [] hello_event1)
          [''data: '' @ hello_payload2, ''data: [DONE]'']"
    unfolding hello_lines_def
    by (rule read_stream_data) (simp_all only: hello_payloads l1 not_False_eq_True)
  have s2: "read_stream loads repr ending ''Hello '' [''data: '' @ hello_payload2, ''data: [DONE]''] =
        read_stream loads repr ending (handle_event repr ''Hello '' hello_event2) [''data: [DONE]'']"
    by (rule read_stream_data) (simp_all only: hello_payloads l2 not_False_eq_True)
  have s3: "read_stream loads repr ending ''Hello world'' [''data: [DONE]''] = Inr ''Hello world''"
    by (rule read_stream_done) (simp_all only: hello_payloads, simp)
  show ?thesis
    using s1 s2 s3 by (simp only: hello_handled)
qed

lemma strip_hello: "strip ''Hello world'' = ''Hello world''"
  by code_simp

lemma summarize_result:
  assumes "openai_api_key env \<noteq> []" and "openai_base_url env \<noteq> []"
    and "http_post env = (\<lambda>address message. Inr r)" and "status_code r < 400"
    and "read_stream (json_loads env) (py_repr env) (broken r) [] (body_lines r) = Inr buffer"
  shows "snd (summarize_with_gpt env job_id tx date) =
         Inr (if strip buffer = [] then None else Some (strip buffer))"
  using assms by (simp add: summarize_with_gpt_def Let_def)

text \<open>
  C5, as stated, fails in its general part: an event typed \<open>output_text.delta\<close> that
  also carries a non-empty top-level \<open>output_text\<close> replaces the buffer by that text; its
  \<open>delta\<close> is not appended. The code tries the shapes in order and the first match wins.
\<close>

theorem delta_not_appended_counterexample:
  "dict_get both_shapes ''type'' PNone = PStr ''output_text.delta'' \<and>
   dict_get both_shapes ''delta'' (PStr []) = PStr ''x'' \<and>
   handle_event no_repr ''abc'' (PDict both_shapes) = ''full'' \<and>
   handle_event no_repr ''abc'' (PDict both_shapes) \<noteq> ''abc'' @ ''x''"
  by (simp add: both_shapes_def dict_get_def handle_event_def py_str_def strip_def isspace_def)

text \<open>
  C5, amended. With the endpoint configured and answering below 400: when the stream is
  the two \<open>response.output_text.delta\<close> events \<open>Hello \<close> and \<open>world\<close> followed by
  \<open>data: [DONE]\<close>, the summarizer returns \<open>Hello world\<close>. More generally an event
  typed \<open>output_text.delta\<close> or \<open>response.output_text.delta\<close> to which no earlier shape
  applies (no truthy top-level \<open>output_text\<close>, no \<open>response\<close> object with a truthy
  \<open>output_text\<close> or a list \<open>output\<close>) appends the \<open>str\<close> of its \<open>delta\<close> field, the
  field itself when it is a string; a \<open>data:\<close> line whose payload parses hands its event
  to that rule and reading goes on; and the result is the trimmed buffer, or no summary
  when that is empty.
\<close>

theorem summarizer_stream:
  "(openai_api_key env \<noteq> [] \<and> openai_base_url env \<noteq> [] \<and>
    http_post env = (\<lambda>address message. Inr r) \<and> status_code r < 400 \<and>
    body_lines r = hello_lines \<and>
    json_loads env hello_payload1 = Some hello_event1 \<and>
    json_loads env hello_payload2 = Some hello_event2
    \<longrightarrow> snd (summarize_with_gpt env job_id tx date) = Inr (Some ''Hello world'')) \<and>
   ((dict_get kvs ''type'' PNone = PStr ''output_text.delta'' \<or>
     dict_get kvs ''type'' PNone = PStr ''response.output_text.delta'') \<and> \<not> earlier_shape kvs
    \<longrightarrow> handle_event repr content (PDict kvs) =
          content @ py_str repr (dict_get kvs ''delta'' (PStr []))) \<and>
   py_str repr (PStr s) = s \<and>
   (raw \<noteq> [] \<and> prefix ''data:'' (strip raw) \<and> strip (drop 5 (strip raw)) \<noteq> ''[DONE]'' \<and>
    loads (strip (drop 5 (strip raw))) = Some obj
    \<longrightarrow> read_stream loads repr ending content (raw # rest) =
          read_stream loads repr ending (handle_event repr content obj) rest) \<and>
   (openai_api_key env \<noteq> [] \<and> openai_base_url env \<noteq> [] \<and>
    http_post env = (\<lambda>address message. Inr r) \<and> status_code r < 400 \<and>
    read_stream (json_loads env) (py_repr env) (broken r) [] (body_lines r) = Inr buffer
    \<longrightarrow> snd (summarize_with_gpt env job_id tx date) =
          Inr (if strip buffer = [] then None else Some (strip buffer)))"
proof (intro conjI impI)
  assume a: "openai_api_key env \<noteq> [] \<and> openai_base_url env \<noteq> [] \<and>
    http_post env = (\<lambda>address message. Inr r) \<and> status_code r < 400 \<and>
    body_lines r = hello_lines \<and>
    json_loads env hello_payload1 = Some hello_event1 \<and>
    json_loads env hello_payload2 = Some hello_event2"
  then have "read_stream (json_loads env) (py_repr env) (broken r) [] (body_lines r) = Inr ''Hello world''"
    using hello_stream[of "json_loads env" "py_repr env" "broken r"] by simp
  with a have "snd (summarize_with_gpt env job_id tx date) =
      Inr (if strip ''Hello world'' = [] then None else Some (strip ''Hello world''))"
    by (intro summarize_result) blast+
  then show "snd (summarize_with_gpt env job_id tx date) = Inr (Some ''Hello world'')"
    by (simp add: strip_hello)
next
  assume "(dict_get kvs ''type'' PNone = PStr ''output_text.delta'' \<or>
     dict_get kvs ''type'' PNone = PStr ''response.output_text.delta'') \<and> \<not> earlier_shape kvs"
  then show "handle_event repr content (PDict kvs) =
          content @ py_str repr (dict_get kvs ''delta'' (PStr []))"
    using delta_appends by blast
next
  show "py_str repr (PStr s) = s" by (simp add: py_str_def)
next
  assume "raw \<noteq> [] \<and> prefix ''data:'' (strip raw) \<and> strip (drop 5 (strip raw)) \<noteq> ''[DONE]'' \<and>
    loads (strip (drop 5 (strip raw))) = Some obj"
  then show "read_stream loads repr ending content (raw # rest) =
          read_stream loads repr ending (handle_event repr content obj) rest"
    using read_stream_data by blast
next
  assume "openai_api_key env \<noteq> [] \<and> openai_base_url env \<noteq> [] \<and>
    http_post env = (\<lambda>address message. Inr r) \<and> status_code r < 400 \<and>
    read_stream (json_loads env) (py_repr env) (broken r) [] (body_lines r) = Inr buffer"
  then show "snd (summarize_with_gpt env job_id tx date) =
          Inr (if strip buffer = [] then None else Some (strip buffer))"
    using summarize_result by blast
qed

theorem summarizer_stream_witness:
  "snd (summarize_with_gpt hello_env ''job'' ''Speaker A: hi'' []) = Inr (Some ''Hello world'') \<and>
   handle_event no_repr ''abc'' hello_event1 = ''abc'' @ ''Hello '' \<and>
   read_stream (json_loads hello_env) no_repr None [] hello_lines =
     read_stream (json_loads hello_env) no_repr None (handle_event no_repr [] hello_event1) (tl hello_lines)"
proof -
  have ne: "hello_payload1 \<noteq> hello_payload2" by code_simp
  have e: "openai_api_key hello_env \<noteq> [] \<and> openai_base_url hello_env \<noteq> [] \<and>
      http_post hello_env = (\<lambda>address message. Inr hello_response) \<and> status_code hello_response < 400 \<and>
      body_lines hello_response = hello_lines \<and>
      json_loads hello_env hello_payload1 = Some hello_event1 \<and>
      json_loads hello_env hello_payload2 = Some hello_event2"
    using ne by (simp add: hello_env_def hello_response_def)
  let ?kvs = "[(''type'', PStr ''response.output_text.delta''), (''delta'', PStr ''Hello '')]"
  have k: "(dict_get ?kvs ''type'' PNone = PStr ''output_text.delta'' \<or>
            dict_get ?kvs ''type'' PNone = PStr ''response.output_text.delta'') \<and> \<not> earlier_shape ?kvs"
    by (simp add: dict_get_def earlier_shape_def)
  have d: "''data: '' @ hello_payload1 \<noteq> [] \<and> prefix ''data:'' (strip (''data: '' @ hello_payload1)) \<and>
      strip (drop 5 (strip (''data: '' @ hello_payload1))) \<noteq> ''[DONE]'' \<and>
      json_loads hello_env (strip (drop 5 (strip (''data: '' @ hello_payload1)))) = Some hello_event1"
    using e by (simp only: hello_payloads not_False_eq_True simp_thms)
  note th = summarizer_stream[where env = hello_env and r = hello_response and kvs = ?kvs
      and repr = no_repr and content = "''abc''" and job_id = "''job''" and tx = "''Speaker A: hi''"
      and date = "[]" and raw = "''data: '' @ hello_payload1" and loads = "json_loads hello_env"
      and obj = hello_event1 and ending = None and rest = "tl hello_lines"]
  from th e have a: "snd (summarize_with_gpt hello_env ''job'' ''Speaker A: hi'' []) = Inr (Some ''Hello world'')"
    by blast
  from th k have "handle_event no_repr ''abc'' (PDict ?kvs) = ''abc'' @ py_str no_repr (dict_get ?kvs ''delta'' (PStr []))"
    by blast
  then have b: "handle_event no_repr ''abc'' hello_event1 = ''abc'' @ ''Hello ''"
    by (simp add: hello_event1_def dict_get_def py_str_def)
  from th d have "read_stream (json_loads hello_env) no_repr None ''abc'' ((''data: '' @ hello_payload1) # tl hello_lines) =
      read_stream (json_loads hello_env) no_repr None (handle_event no_repr ''abc'' hello_event1) (tl hello_lines)"
    by blast
  have c: "read_stream (json_loads hello_env) no_repr None [] hello_lines =
     read_stream (json_loads hello_env) no_repr None (handle_event no_repr [] hello_event1) (tl hello_lines)"
    using summarizer_stream[where raw = "''data: '' @ hello_payload1" and loads = "json_loads hello_env"
      and obj = hello_event1 and ending = None and rest = "tl hello_lines" and repr = no_repr
      and content = "[]"] d
    by (simp add: hello_lines_def)
  from a b c show ?thesis by blast
qed

end
